theory Spec2Isabelle
  imports Main "HOL-Library.Sublist"
begin

section \<open>Strings\<close>

text \<open>
  A JavaScript string is modelled as a \<^typ>\<open>string\<close> whose characters are the code
  units below 256 (the Latin-1 range). On that range \<open>String.prototype.toLowerCase\<close>
  maps \<open>A\<close>..\<open>Z\<close> and the accented capitals \<open>0xC0\<close>..\<open>0xDE\<close> (the multiplication sign
  \<open>0xD7\<close> apart) to the code unit 32 above and leaves every other unit alone.
\<close>

definition toLowerCase_char :: "char \<Rightarrow> char" where
  "toLowerCase_char c =
     (let n = (of_char c :: nat)
      in if (65 \<le> n \<and> n \<le> 90) \<or> (192 \<le> n \<and> n \<le> 222 \<and> n \<noteq> 215)
         then char_of (n + 32) else c)"

definition toLowerCase :: "string \<Rightarrow> string" where
  "toLowerCase s = map toLowerCase_char s"

text \<open>\<open>s.startsWith(t)\<close> and \<open>s.includes(t)\<close>: the receiver comes first.\<close>

fun startsWith :: "string \<Rightarrow> string \<Rightarrow> bool" where
  "startsWith s [] = True"
| "startsWith [] (d # t) = False"
| "startsWith (c # s) (d # t) = (c = d \<and> startsWith s t)"

fun includes_str :: "string \<Rightarrow> string \<Rightarrow> bool" where
  "includes_str [] t = (t = [])"
| "includes_str (c # s) t = (startsWith (c # s) t \<or> includes_str s t)"

text \<open>
  The character class \<open>\s\<close> on the modelled range: tab, line feed, vertical tab, form
  feed, carriage return, space and the no-break space. \<open>/\S/.test(s)\<close> looks for one
  character outside it.
\<close>

definition isWhiteSpace :: "char \<Rightarrow> bool" where
  "isWhiteSpace c =
     (let n = (of_char c :: nat) in (9 \<le> n \<and> n \<le> 13) \<or> n = 32 \<or> n = 160)"

definition test_non_whitespace :: "string \<Rightarrow> bool" where
  "test_non_whitespace s = list_ex (\<lambda>c. \<not> isWhiteSpace c) s"

text \<open>\<open>x || ''\<close> for an optional string: \<open>undefined\<close> and \<open>''\<close> are both falsy.\<close>

definition or_empty :: "string option \<Rightarrow> string" where
  "or_empty x = (case x of None \<Rightarrow> [] | Some t \<Rightarrow> if t = [] then [] else t)"

section \<open>Data model\<close>

text \<open>
  The fields \<open>text\<close> and \<open>id\<close> of \<open>IFilterListItem\<close> are \<open>item_text\<close> and \<open>item_id\<close> here, and
  the field \<open>identifier\<close> of \<open>IFilterListGroup\<close> is \<open>group_identifier\<close>.
\<close>

record IFilterListItem =
  item_text :: string
  item_id :: string

record IFilterListGroup =
  group_identifier :: string
  items :: "IFilterListItem list"

text \<open>
  \<open>IFilterListRow\<close> is the tagged union of \<open>IFlattenedGroup\<close> (\<open>kind: 'group'\<close>) and
  \<open>IFlattenedItem\<close> (\<open>kind: 'item'\<close>).
\<close>

datatype IFilterListRow =
  IFlattenedGroup string
| IFlattenedItem IFilterListItem

fun kind_is_item :: "IFilterListRow \<Rightarrow> bool" where
  "kind_is_item (IFlattenedItem i) = True"
| "kind_is_item (IFlattenedGroup g) = False"

record KeyboardEvent =
  key :: string
  defaultPrevented :: bool

definition preventDefault :: "KeyboardEvent \<Rightarrow> KeyboardEvent" where
  "preventDefault event = event\<lparr>defaultPrevented := True\<rparr>"

text \<open>
  The properties of the component that the logic reads. A callback whose result is not
  used is modelled by whether it is supplied; the calls made to it are recorded as
  effects. \<open>onFilterKeyDown\<close> may cancel the event, so it is a function on the event.
  The rendering properties (\<open>className\<close>, \<open>rowHeight\<close>, \<open>renderItem\<close>, \<open>renderPreList\<close>,
  \<open>renderPostFilter\<close>, \<open>invalidationProps\<close>) are not read by any function modelled here.
\<close>

record IFilterListProps =
  groups :: "IFilterListGroup list"
  selectedItem :: "IFilterListItem option"
  renderGroupHeader :: bool
  onItemClick :: bool
  onSelectionChanged :: bool
  onFilterKeyDown :: "(KeyboardEvent \<Rightarrow> KeyboardEvent) option"
  filterText :: "string option"
  onFilterTextChanged :: bool
  disabled :: "bool option"
  renderNoItems :: bool

record IFilterListState =
  rows :: "IFilterListRow list"
  selectedRow :: int

section \<open>createStateUpdate\<close>

text \<open>\<open>Array.prototype.findIndex\<close>: the index of the first element that satisfies the
  predicate, \<open>-1\<close> when there is none.\<close>

fun findIndex_from :: "('a \<Rightarrow> bool) \<Rightarrow> 'a list \<Rightarrow> int \<Rightarrow> int" where
  "findIndex_from P [] k = -1"
| "findIndex_from P (x # xs) k = (if P x then k else findIndex_from P xs (k + 1))"

definition findIndex :: "('a \<Rightarrow> bool) \<Rightarrow> 'a list \<Rightarrow> int" where
  "findIndex P xs = findIndex_from P xs 0"

text \<open>The inner loop \<open>for (const item of items) flattenedRows.push({ kind: 'item', item })\<close>.\<close>

fun push_items :: "IFilterListRow list \<Rightarrow> IFilterListItem list \<Rightarrow> IFilterListRow list" where
  "push_items flattenedRows [] = flattenedRows"
| "push_items flattenedRows (item # rest) = push_items (flattenedRows @ [IFlattenedItem item]) rest"

text \<open>The outer loop \<open>for (const group of props.groups)\<close>, with \<open>flattenedRows\<close> as the
  accumulator.\<close>

fun flatten_groups ::
  "IFilterListProps \<Rightarrow> string \<Rightarrow> IFilterListRow list \<Rightarrow> IFilterListGroup list \<Rightarrow> IFilterListRow list"
where
  "flatten_groups props flt flattenedRows [] = flattenedRows"
| "flatten_groups props flt flattenedRows (grp # rest) =
     (let its = filter (\<lambda>i. includes_str (toLowerCase (item_text i)) flt) (items grp)
      in if length its = 0 then flatten_groups props flt flattenedRows rest
         else flatten_groups props flt
                (push_items
                   (if renderGroupHeader props
                    then flattenedRows @ [IFlattenedGroup (group_identifier grp)]
                    else flattenedRows)
                   its)
                rest)"

definition selected_id_row :: "IFilterListItem \<Rightarrow> IFilterListRow \<Rightarrow> bool" where
  "selected_id_row selected i =
     (case i of IFlattenedItem it \<Rightarrow> item_id it = item_id selected | IFlattenedGroup g \<Rightarrow> False)"

definition createStateUpdate :: "IFilterListProps \<Rightarrow> IFilterListState" where
  "createStateUpdate props =
     (let flt = toLowerCase (or_empty (filterText props));
          flattenedRows = flatten_groups props flt [] (groups props);
          selectedRow0 =
            (case selectedItem props of
               None \<Rightarrow> -1
             | Some selected \<Rightarrow> findIndex (selected_id_row selected) flattenedRows);
          selectedRow1 =
            (if selectedRow0 < 0 \<and> length flt \<noteq> 0
             then findIndex kind_is_item flattenedRows
             else selectedRow0)
      in \<lparr>rows = flattenedRows, selectedRow = selectedRow1\<rparr>)"

section \<open>Looking a row up\<close>

fun getItemFromRowIndex :: "IFilterListRow list \<Rightarrow> int \<Rightarrow> IFilterListItem option" where
  "getItemFromRowIndex its index =
     (if index \<ge> 0 \<and> index < int (length its)
      then (case its ! nat index of
              IFlattenedItem item \<Rightarrow> Some item
            | IFlattenedGroup g \<Rightarrow> None)
      else None)"

definition getItemIdFromRowIndex :: "IFilterListRow list \<Rightarrow> int \<Rightarrow> string option" where
  "getItemIdFromRowIndex its index =
     (case getItemFromRowIndex its index of Some item \<Rightarrow> Some (item_id item) | None \<Rightarrow> None)"

text \<open>
  The unguarded read \<open>this.state.rows[index]\<close>: outside the array JavaScript gives
  \<open>undefined\<close>, here \<open>None\<close>. Reading \<open>.kind\<close> of \<open>undefined\<close> throws a \<open>TypeError\<close>.
\<close>

datatype error = TypeError

definition row_at :: "IFilterListRow list \<Rightarrow> int \<Rightarrow> IFilterListRow option" where
  "row_at rs index = (if 0 \<le> index \<and> index < int (length rs) then Some (rs ! nat index) else None)"

section \<open>The component\<close>

text \<open>
  Modelled from the spec: \<open>ListSelectionSource\<close> is declared in \<open>../lib/list\<close>, which is
  not among the sources; the specification names one source \<open>PointerOrKeyboard\<close> for the
  list's own input handling, passed on verbatim.
\<close>

datatype ListSelectionSource = PointerOrKeyboard

text \<open>
  \<open>SelectionSource\<close> is the list's own \<open>ListSelectionSource\<close> or the
  \<open>IFilterSelectionSource\<close> \<open>{ kind: 'filter', filterText }\<close>.
\<close>

datatype SelectionSource =
  ListSource ListSelectionSource
| IFilterSelectionSource string

text \<open>
  What a handler does to the outside: the calls to the caller's callbacks and the focus
  requests, in the order they are made.
\<close>

datatype effect =
  Call_onSelectionChanged "IFilterListItem option" SelectionSource
| Call_onItemClick IFilterListItem
| List_focus
| Input_focus

datatype direction = Up | Down

text \<open>
  The handle \<open>this.list\<close>. The component calls one method of it,
  \<open>nextSelectableRow(direction, row)\<close>, which answers a row index or \<open>null\<close>; as the list
  asks the component's \<open>canSelectRow\<close>, the call may also throw.
\<close>

record ListControl =
  nextSelectableRow :: "direction \<Rightarrow> int \<Rightarrow> error + int option"

datatype HTMLInputElement = InputElement

record FilterList =
  props :: IFilterListProps
  state :: IFilterListState
  list_ref :: "ListControl option"
  filterInput :: "HTMLInputElement option"

definition truthy_bool :: "bool option \<Rightarrow> bool" where
  "truthy_bool b = (case b of None \<Rightarrow> False | Some v \<Rightarrow> v)"

definition setState_selectedRow :: "FilterList \<Rightarrow> int \<Rightarrow> FilterList" where
  "setState_selectedRow this index = this\<lparr>state := (state this)\<lparr>selectedRow := index\<rparr>\<rparr>"

definition FilterList_componentWillReceiveProps :: "FilterList \<Rightarrow> IFilterListProps \<Rightarrow> FilterList" where
  "FilterList_componentWillReceiveProps this nextProps =
     this\<lparr>props := nextProps, state := createStateUpdate nextProps\<rparr>"

definition FilterList_onSelectionChanged ::
  "FilterList \<Rightarrow> int \<Rightarrow> SelectionSource \<Rightarrow> error + (FilterList \<times> effect list)"
where
  "FilterList_onSelectionChanged this index source =
     (let this' = setState_selectedRow this index
      in if onSelectionChanged (props this)
         then (case row_at (rows (state this)) index of
                 None \<Rightarrow> Inl TypeError
               | Some (IFlattenedItem item) \<Rightarrow> Inr (this', [Call_onSelectionChanged (Some item) source])
               | Some (IFlattenedGroup g) \<Rightarrow> Inr (this', []))
         else Inr (this', []))"

definition FilterList_componentDidUpdate ::
  "FilterList \<Rightarrow> IFilterListProps \<Rightarrow> IFilterListState \<Rightarrow> effect list"
where
  "FilterList_componentDidUpdate this prevProps prevState =
     (if onSelectionChanged (props this)
      then (let oldSelectedItemId = getItemIdFromRowIndex (rows prevState) (selectedRow prevState);
                newSelectedItemId =
                  getItemIdFromRowIndex (rows (state this)) (selectedRow (state this))
            in if oldSelectedItemId \<noteq> newSelectedItemId
               then (let propSelectionId =
                           (case selectedItem (props this) of
                              Some item \<Rightarrow> Some (item_id item)
                            | None \<Rightarrow> None)
                     in if propSelectionId \<noteq> newSelectedItemId
                        then [Call_onSelectionChanged
                                (getItemFromRowIndex (rows (state this)) (selectedRow (state this)))
                                (IFilterSelectionSource (or_empty (filterText (props this))))]
                        else [])
               else [])
      else [])"

definition FilterList_canSelectRow :: "FilterList \<Rightarrow> int \<Rightarrow> error + bool" where
  "FilterList_canSelectRow this index =
     (if truthy_bool (disabled (props this)) then Inr False
      else (case row_at (rows (state this)) index of
              None \<Rightarrow> Inl TypeError
            | Some row \<Rightarrow> Inr (kind_is_item row)))"

definition FilterList_onRowClick :: "FilterList \<Rightarrow> int \<Rightarrow> error + effect list" where
  "FilterList_onRowClick this index =
     (if onItemClick (props this)
      then (case row_at (rows (state this)) index of
              None \<Rightarrow> Inl TypeError
            | Some (IFlattenedItem item) \<Rightarrow> Inr [Call_onItemClick item]
            | Some (IFlattenedGroup g) \<Rightarrow> Inr [])
      else Inr [])"

definition FilterList_onRowKeyDown ::
  "FilterList \<Rightarrow> int \<Rightarrow> KeyboardEvent \<Rightarrow> error + (FilterList \<times> KeyboardEvent \<times> effect list)"
where
  "FilterList_onRowKeyDown this row event =
     (case list_ref this of
        None \<Rightarrow> Inr (this, event, [])
      | Some lst \<Rightarrow>
          (case nextSelectableRow lst Down (-1) of
             Inl e \<Rightarrow> Inl e
           | Inr firstSelectableRow \<Rightarrow>
               (case nextSelectableRow lst Up 0 of
                  Inl e \<Rightarrow> Inl e
                | Inr lastSelectableRow \<Rightarrow>
                    (let focusInput =
                           (if key event = ''ArrowUp'' \<and> Some row = firstSelectableRow then True
                            else if key event = ''ArrowDown'' \<and> Some row = lastSelectableRow then True
                            else False)
                     in if focusInput
                        then (case filterInput this of
                                Some input \<Rightarrow> Inr (this, preventDefault event, [Input_focus])
                              | None \<Rightarrow> Inr (this, event, []))
                        else Inr (this, event, [])))))"

text \<open>
  The two arrow branches of \<open>onKeyDown\<close> differ in the query only: with rows present the
  list is asked for a row; an answer other than \<open>null\<close> is stored and the list focused;
  the event's default is prevented in every case.
\<close>

definition arrow_into_list ::
  "FilterList \<Rightarrow> ListControl \<Rightarrow> KeyboardEvent \<Rightarrow> direction \<Rightarrow> int \<Rightarrow>
     error + (FilterList \<times> KeyboardEvent \<times> effect list)"
where
  "arrow_into_list this lst event d start =
     (if length (rows (state this)) > 0
      then (case nextSelectableRow lst d start of
              Inl e \<Rightarrow> Inl e
            | Inr (Some selectedRow') \<Rightarrow>
                Inr (setState_selectedRow this selectedRow', preventDefault event, [List_focus])
            | Inr None \<Rightarrow> Inr (this, preventDefault event, []))
      else Inr (this, preventDefault event, []))"

text \<open>
  The end of the \<open>Enter\<close> branch: \<open>const row = list.nextSelectableRow('down', -1)\<close>, then
  \<open>if (row) { this.onRowClick(row) }\<close>. A \<open>number | null\<close> used as a condition is false
  for \<open>null\<close> and for \<open>0\<close>.
\<close>

definition enter_click ::
  "FilterList \<Rightarrow> ListControl \<Rightarrow> KeyboardEvent \<Rightarrow> error + (FilterList \<times> KeyboardEvent \<times> effect list)"
where
  "enter_click this lst event =
     (case nextSelectableRow lst Down (-1) of
        Inl e \<Rightarrow> Inl e
      | Inr None \<Rightarrow> Inr (this, event, [])
      | Inr (Some row) \<Rightarrow>
          if row \<noteq> 0
          then (case FilterList_onRowClick this row of
                  Inl e \<Rightarrow> Inl e
                | Inr effs \<Rightarrow> Inr (this, event, effs))
          else Inr (this, event, []))"

definition FilterList_onKeyDown ::
  "FilterList \<Rightarrow> KeyboardEvent \<Rightarrow> error + (FilterList \<times> KeyboardEvent \<times> effect list)"
where
  "FilterList_onKeyDown this event0 =
     (case list_ref this of
        None \<Rightarrow> Inr (this, event0, [])
      | Some lst \<Rightarrow>
          (let event = (case onFilterKeyDown (props this) of None \<Rightarrow> event0 | Some h \<Rightarrow> h event0)
           in if defaultPrevented event then Inr (this, event, [])
              else if key event = ''ArrowDown'' then arrow_into_list this lst event Down (-1)
              else if key event = ''ArrowUp'' then arrow_into_list this lst event Up 0
              else if key event = ''Enter'' then
                (if length (rows (state this)) = 0 then Inr (this, preventDefault event, [])
                 else (case filterText (props this) of
                         Some filterText' \<Rightarrow>
                           if \<not> test_non_whitespace filterText'
                           then Inr (this, preventDefault event, [])
                           else enter_click this lst event
                       | None \<Rightarrow> enter_click this lst event))
              else Inr (this, event, [])))"

section \<open>The list control\<close>

text \<open>
  Modelled from the spec: the \<open>List\<close> component of \<open>../lib/list\<close> is not among the
  sources. The specification gives its method as
  \<open>nextSelectableRow(direction, fromIndex) -> index-or-null\<close>, "next selectable in
  direction D starting just past position P", with \<open>('down', -1)\<close> the first selectable row
  scanning downward from the top and \<open>('up', 0)\<close> the first selectable row scanning upward
  from the bottom. The rows are visited once each, wrapping around at either end, and
  selectability is asked of the \<open>canSelectRow\<close> predicate the list was given.
\<close>

fun scan_rows :: "(int \<Rightarrow> error + bool) \<Rightarrow> int list \<Rightarrow> error + int option" where
  "scan_rows canSelectRow [] = Inr None"
| "scan_rows canSelectRow (i # rest) =
     (case canSelectRow i of
        Inl e \<Rightarrow> Inl e
      | Inr True \<Rightarrow> Inr (Some i)
      | Inr False \<Rightarrow> scan_rows canSelectRow rest)"

definition rows_past :: "nat \<Rightarrow> direction \<Rightarrow> int \<Rightarrow> int list" where
  "rows_past rowCount d start =
     map (\<lambda>k. (case d of Down \<Rightarrow> start + 1 + int k | Up \<Rightarrow> start - 1 - int k) mod int rowCount)
       [0..<rowCount]"

definition List_nextSelectableRow ::
  "nat \<Rightarrow> (int \<Rightarrow> error + bool) \<Rightarrow> direction \<Rightarrow> int \<Rightarrow> error + int option"
where
  "List_nextSelectableRow rowCount canSelectRow d start =
     scan_rows canSelectRow (rows_past rowCount d start)"

text \<open>
  \<open>renderContent\<close> passes \<open>rowCount = this.state.rows.length\<close> and
  \<open>canSelectRow = this.canSelectRow\<close> to the list. No list is rendered when there are no
  rows and \<open>renderNoItems\<close> is supplied. \<open>rendered\<close> is the component as it stands after
  rendering with the given properties and state, both handles attached.
\<close>

definition rendered_list :: "IFilterListProps \<Rightarrow> IFilterListState \<Rightarrow> ListControl" where
  "rendered_list p st =
     \<lparr>nextSelectableRow =
        List_nextSelectableRow (length (rows st))
          (FilterList_canSelectRow \<lparr>props = p, state = st, list_ref = None, filterInput = None\<rparr>)\<rparr>"

definition rendered :: "IFilterListProps \<Rightarrow> IFilterListState \<Rightarrow> FilterList" where
  "rendered p st =
     \<lparr>props = p, state = st,
      list_ref = (if length (rows st) = 0 \<and> renderNoItems p then None
                  else Some (rendered_list p st)),
      filterInput = Some InputElement\<rparr>"

section \<open>Notions used to state the properties\<close>

text \<open>The item id a row carries: none for a group header.\<close>

definition row_item_id :: "IFilterListRow \<Rightarrow> string option" where
  "row_item_id r = (case r of IFlattenedItem it \<Rightarrow> Some (item_id it) | IFlattenedGroup g \<Rightarrow> None)"

text \<open>An item row whose item id is the selected one.\<close>

definition has_item_id :: "string option \<Rightarrow> IFilterListRow \<Rightarrow> bool" where
  "has_item_id sid r = (sid \<noteq> None \<and> row_item_id r = sid)"

text \<open>\<open>k\<close> is the index of the first element of \<open>xs\<close> that satisfies \<open>P\<close>.\<close>

definition is_first_index :: "('a \<Rightarrow> bool) \<Rightarrow> 'a list \<Rightarrow> int \<Rightarrow> bool" where
  "is_first_index P xs k =
     (0 \<le> k \<and> k < int (length xs) \<and> P (xs ! nat k) \<and> list_all (\<lambda>x. \<not> P x) (take (nat k) xs))"

text \<open>
  The rows one group contributes, in the words of the specification: nothing when no
  item of the group matches; otherwise the header, if headers are rendered, and then
  one item row for each matching item in the group's own order. An item matches when its
  lower-cased text contains the lower-cased filter text as a substring.
\<close>

definition group_rows :: "bool \<Rightarrow> string option \<Rightarrow> IFilterListGroup \<Rightarrow> IFilterListRow list" where
  "group_rows hasGroupHeaderRenderer ft g =
     (let matching =
            filter (\<lambda>i. sublist (toLowerCase (or_empty ft)) (toLowerCase (item_text i))) (items g)
      in if matching = [] then []
         else (if hasGroupHeaderRenderer then [IFlattenedGroup (group_identifier g)] else [])
              @ map IFlattenedItem matching)"

text \<open>
  The item id at a row index: none when the index is \<open>-1\<close> or otherwise outside the
  rows, and none at a group header.
\<close>

definition item_id_at :: "IFilterListRow list \<Rightarrow> int \<Rightarrow> string option" where
  "item_id_at rs k = (if k < 0 \<or> int (length rs) \<le> k then None else row_item_id (rs ! nat k))"

section \<open>Sample inputs\<close>

definition item_a :: IFilterListItem where
  "item_a = \<lparr>item_text = ''Apple'', item_id = ''a''\<rparr>"

definition item_b :: IFilterListItem where
  "item_b = \<lparr>item_text = ''Banana'', item_id = ''b''\<rparr>"

definition item_c :: IFilterListItem where
  "item_c = \<lparr>item_text = ''Cherry'', item_id = ''c''\<rparr>"

definition item_hello :: IFilterListItem where
  "item_hello = \<lparr>item_text = ''Hello World'', item_id = ''h''\<rparr>"

text \<open>
  Two groups, the second with a single item; every callback supplied, no caller key
  handler, not disabled.
\<close>

definition sample_props ::
  "bool \<Rightarrow> string option \<Rightarrow> IFilterListItem option \<Rightarrow> IFilterListProps"
where
  "sample_props header ft sel =
     \<lparr>groups = [\<lparr>group_identifier = ''fruit'', items = [item_a, item_b, item_c]\<rparr>,
                \<lparr>group_identifier = ''greeting'', items = [item_hello]\<rparr>],
      selectedItem = sel, renderGroupHeader = header, onItemClick = True,
      onSelectionChanged = True, onFilterKeyDown = None, filterText = ft,
      onFilterTextChanged = True, disabled = None, renderNoItems = False\<rparr>"

definition sample_list :: "bool \<Rightarrow> string option \<Rightarrow> IFilterListItem option \<Rightarrow> FilterList" where
  "sample_list header ft sel =
     rendered (sample_props header ft sel) (createStateUpdate (sample_props header ft sel))"

definition key_event :: "string \<Rightarrow> KeyboardEvent" where
  "key_event k = \<lparr>key = k, defaultPrevented = False\<rparr>"

text \<open>The sample component whose caller supplies no selection-changed callback.\<close>

definition silent_props :: "string option \<Rightarrow> IFilterListProps" where
  "silent_props ft = (sample_props True ft None)\<lparr>onSelectionChanged := False\<rparr>"

definition silent_list :: "string option \<Rightarrow> FilterList" where
  "silent_list ft = rendered (silent_props ft) (createStateUpdate (silent_props ft))"

text \<open>The sample component whose caller cancels every key press in the filter input.\<close>

definition cancelling_props :: IFilterListProps where
  "cancelling_props = (sample_props True None None)\<lparr>onFilterKeyDown := Some preventDefault\<rparr>"

definition cancelling_list :: FilterList where
  "cancelling_list = rendered cancelling_props (createStateUpdate cancelling_props)"

definition item_z :: IFilterListItem where
  "item_z = \<lparr>item_text = ''Zucchini'', item_id = ''z''\<rparr>"

section \<open>Strings: substring search\<close>

lemma toLowerCase_Nil_iff: "toLowerCase s = [] \<longleftrightarrow> s = []"
  by (simp add: toLowerCase_def)

lemma toLowerCase_Nil: "toLowerCase [] = []"
  by (simp add: toLowerCase_def)

lemma or_empty_eq: "or_empty x = (case x of None \<Rightarrow> [] | Some t \<Rightarrow> t)"
  by (simp add: or_empty_def split: option.splits)

lemma startsWith_prefix: "startsWith s t \<longleftrightarrow> prefix t s"
  by (induction s t rule: startsWith.induct) auto

lemma includes_str_sublist: "includes_str s t \<longleftrightarrow> sublist t s"
  by (induction s) (simp_all add: startsWith_prefix sublist_Cons_right)

section \<open>The flattening loops\<close>

lemma push_items_append: "push_items acc its = acc @ map IFlattenedItem its"
  by (induction its arbitrary: acc) simp_all

lemma flatten_groups_append:
  "flatten_groups p (toLowerCase (or_empty ft)) acc gs =
     acc @ concat (map (group_rows (renderGroupHeader p) ft) gs)"
proof (induction gs arbitrary: acc)
  case Nil
  show ?case by simp
next
  case (Cons g gs)
  show ?case
    by (simp add: Cons.IH Let_def group_rows_def push_items_append includes_str_sublist)
qed

lemma rows_createStateUpdate:
  "rows (createStateUpdate p) =
     flatten_groups p (toLowerCase (or_empty (filterText p))) [] (groups p)"
  by (simp add: createStateUpdate_def Let_def)

lemma rows_concat:
  "rows (createStateUpdate p) =
     concat (map (group_rows (renderGroupHeader p) (filterText p)) (groups p))"
  by (simp add: rows_createStateUpdate flatten_groups_append)

lemma item_in_group_rows:
  "IFlattenedItem i \<in> set (group_rows h ft g) \<longleftrightarrow>
     i \<in> set (items g) \<and> sublist (toLowerCase (or_empty ft)) (toLowerCase (item_text i))"
proof -
  let ?matching =
    "filter (\<lambda>i. sublist (toLowerCase (or_empty ft)) (toLowerCase (item_text i))) (items g)"
  have "IFlattenedItem i \<in> set (group_rows h ft g) \<longleftrightarrow> i \<in> set ?matching"
  proof (cases "?matching = []")
    case True
    then show ?thesis by (simp add: group_rows_def)
  next
    case False
    then show ?thesis by (auto simp: group_rows_def Let_def)
  qed
  then show ?thesis by simp
qed

section \<open>findIndex\<close>

lemma findIndex_from_none: "list_all (\<lambda>x. \<not> P x) xs \<Longrightarrow> findIndex_from P xs k = -1"
  by (induction xs arbitrary: k) simp_all

lemma findIndex_from_some:
  "list_ex P xs \<Longrightarrow>
     \<exists>n < length xs. findIndex_from P xs k = k + int n \<and> P (xs ! n)
        \<and> list_all (\<lambda>x. \<not> P x) (take n xs)"
proof (induction xs arbitrary: k)
  case Nil
  then show ?case by simp
next
  case (Cons x xs)
  show ?case
  proof (cases "P x")
    case True
    then show ?thesis by (intro exI [of _ 0]) simp
  next
    case False
    with Cons.prems have "list_ex P xs" by simp
    from Cons.IH [OF this, of "k + 1"] obtain n where
      "n < length xs" "findIndex_from P xs (k + 1) = k + 1 + int n" "P (xs ! n)"
      "list_all (\<lambda>x. \<not> P x) (take n xs)"
      by blast
    with False show ?thesis by (intro exI [of _ "Suc n"]) simp
  qed
qed

lemma findIndex_first: "list_ex P xs \<Longrightarrow> is_first_index P xs (findIndex P xs)"
  using findIndex_from_some [of P xs 0] by (auto simp: findIndex_def is_first_index_def)

lemma findIndex_none: "\<not> list_ex P xs \<Longrightarrow> findIndex P xs = -1"
  by (simp add: findIndex_def findIndex_from_none list_all_iff list_ex_iff)

lemma findIndex_cases:
  "(list_ex P xs \<and> is_first_index P xs (findIndex P xs))
     \<or> (\<not> list_ex P xs \<and> findIndex P xs = -1)"
  using findIndex_first findIndex_none by blast

lemma selectedRow_createStateUpdate:
  "selectedRow (createStateUpdate p) =
     (let rs = rows (createStateUpdate p);
          r0 = (case selectedItem p of
                  None \<Rightarrow> -1
                | Some s \<Rightarrow> findIndex (selected_id_row s) rs)
      in if r0 < 0 \<and> or_empty (filterText p) \<noteq> [] then findIndex kind_is_item rs else r0)"
  by (simp add: createStateUpdate_def Let_def toLowerCase_Nil_iff)

lemma selected_id_row_has_item_id: "selected_id_row s = has_item_id (Some (item_id s))"
  by (rule ext)
    (simp add: selected_id_row_def has_item_id_def row_item_id_def split: IFilterListRow.splits)

section \<open>The selected row of the derived state\<close>

text \<open>
  Claim C1. For every list of groups, filter text and selected item, the selected row
  of the derived state is the index of the first item row whose item id is the selected
  item's id when there is such a row; failing that, and with a non-empty filter text, it
  is the index of the first item row, or \<open>-1\<close> when the rows hold no item row; failing
  that with an empty or absent filter text it is \<open>-1\<close>.
\<close>

theorem createStateUpdate_selectedRow:
  "let st = createStateUpdate p;
       found = has_item_id (map_option item_id (selectedItem p))
   in if list_ex found (rows st) then is_first_index found (rows st) (selectedRow st)
      else if or_empty (filterText p) \<noteq> []
           then (if list_ex kind_is_item (rows st)
                 then is_first_index kind_is_item (rows st) (selectedRow st)
                 else selectedRow st = -1)
           else selectedRow st = -1"
proof (cases "selectedItem p")
  case None
  have nf: "\<not> list_ex (has_item_id None) xs" for xs
    by (simp add: has_item_id_def list_ex_iff)
  show ?thesis
    using findIndex_cases [of kind_is_item "rows (createStateUpdate p)"]
    by (auto simp: Let_def None nf selectedRow_createStateUpdate [of p])
next
  case (Some s)
  show ?thesis
    using findIndex_cases [of kind_is_item "rows (createStateUpdate p)"]
      findIndex_cases [of "has_item_id (Some (item_id s))" "rows (createStateUpdate p)"]
    by (auto simp: Let_def Some selectedRow_createStateUpdate [of p] selected_id_row_has_item_id
        is_first_index_def)
qed

text \<open>
  The four branches at the sample groups: the selected item \<open>b\<close> is shown (row 2, after
  the header and \<open>a\<close>); the filter \<open>ch\<close> hides \<open>b\<close> and the first item row is taken; the
  filter \<open>zzz\<close> leaves no row; and without a filter text an unknown selection gives \<open>-1\<close>.
\<close>

theorem createStateUpdate_selectedRow_witness:
  "selectedRow (createStateUpdate (sample_props True (Some []) (Some item_b))) = 2
   \<and> is_first_index (has_item_id (Some ''b''))
        (rows (createStateUpdate (sample_props True (Some []) (Some item_b)))) 2
   \<and> selectedRow (createStateUpdate (sample_props True (Some ''ch'') (Some item_b))) = 1
   \<and> is_first_index kind_is_item
        (rows (createStateUpdate (sample_props True (Some ''ch'') (Some item_b)))) 1
   \<and> selectedRow (createStateUpdate (sample_props True (Some ''zzz'') (Some item_b))) = -1
   \<and> selectedRow (createStateUpdate (sample_props True None (Some item_z))) = -1"
proof -
  let ?p1 = "sample_props True (Some []) (Some item_b)"
  let ?p2 = "sample_props True (Some ''ch'') (Some item_b)"
  let ?p3 = "sample_props True (Some ''zzz'') (Some item_b)"
  let ?p4 = "sample_props True None (Some item_z)"
  have sel: "map_option item_id (selectedItem ?p1) = Some ''b''"
    "map_option item_id (selectedItem ?p2) = Some ''b''"
    "map_option item_id (selectedItem ?p3) = Some ''b''"
    "map_option item_id (selectedItem ?p4) = Some ''z''"
    by (simp_all add: sample_props_def item_b_def item_z_def)
  have ft: "or_empty (filterText ?p1) = []" "or_empty (filterText ?p2) \<noteq> []"
    "or_empty (filterText ?p3) \<noteq> []" "or_empty (filterText ?p4) = []"
    by (simp_all add: sample_props_def or_empty_def)
  have c1: "list_ex (has_item_id (Some ''b'')) (rows (createStateUpdate ?p1))"
    by code_simp
  have v1: "selectedRow (createStateUpdate ?p1) = 2"
    by code_simp
  have c2: "\<not> list_ex (has_item_id (Some ''b'')) (rows (createStateUpdate ?p2))"
    "list_ex kind_is_item (rows (createStateUpdate ?p2))"
    by code_simp+
  have v2: "selectedRow (createStateUpdate ?p2) = 1"
    by code_simp
  have c3: "\<not> list_ex (has_item_id (Some ''b'')) (rows (createStateUpdate ?p3))"
    "\<not> list_ex kind_is_item (rows (createStateUpdate ?p3))"
    by code_simp+
  have c4: "\<not> list_ex (has_item_id (Some ''z'')) (rows (createStateUpdate ?p4))"
    by code_simp
  show ?thesis
    using createStateUpdate_selectedRow [of ?p1] createStateUpdate_selectedRow [of ?p2]
      createStateUpdate_selectedRow [of ?p3] createStateUpdate_selectedRow [of ?p4]
    by (simp add: Let_def sel ft c1 v1 c2 v2 c3 c4)
qed

text \<open>
  Claim C7. For every input the selected row of the derived state is \<open>-1\<close> or an index
  into the rows at which an item row stands: never a group header, never past the end.
\<close>

theorem createStateUpdate_selectedRow_valid:
  "selectedRow (createStateUpdate p) = -1
   \<or> (0 \<le> selectedRow (createStateUpdate p)
      \<and> selectedRow (createStateUpdate p) < int (length (rows (createStateUpdate p)))
      \<and> kind_is_item (rows (createStateUpdate p) ! nat (selectedRow (createStateUpdate p))))"
proof (cases "selectedItem p")
  case None
  show ?thesis
    using findIndex_cases [of kind_is_item "rows (createStateUpdate p)"]
    by (auto simp: Let_def None selectedRow_createStateUpdate [of p] is_first_index_def)
next
  case (Some s)
  have item: "kind_is_item r" if "has_item_id (Some (item_id s)) r" for r
    using that by (cases r) (simp_all add: has_item_id_def row_item_id_def)
  show ?thesis
    using findIndex_cases [of kind_is_item "rows (createStateUpdate p)"]
      findIndex_cases [of "has_item_id (Some (item_id s))" "rows (createStateUpdate p)"]
    by (auto simp: Let_def Some selectedRow_createStateUpdate [of p] selected_id_row_has_item_id
        is_first_index_def item)
qed

section \<open>The rows of the derived state\<close>

text \<open>
  Claim C2. For every list of groups, filter text and header flag, the rows are the
  contributions of the groups one after the other in the caller's order, where a group
  without a matching item contributes nothing, not even its header, and any other group
  contributes its header first exactly when a group header renderer is supplied, followed
  by one item row for each matching item in the group's own order.
\<close>

theorem createStateUpdate_rows:
  "rows (createStateUpdate p) =
     concat (map (group_rows (renderGroupHeader p) (filterText p)) (groups p))
   \<and> (\<forall>g. group_rows (renderGroupHeader p) (filterText p) g =
        (let matching =
               filter (\<lambda>i. sublist (toLowerCase (or_empty (filterText p))) (toLowerCase (item_text i)))
                 (items g)
         in if matching = [] then []
            else if renderGroupHeader p
                 then IFlattenedGroup (group_identifier g) # map IFlattenedItem matching
                 else map IFlattenedItem matching))"
  by (simp add: rows_concat group_rows_def Let_def)

text \<open>
  At the sample groups with the filter \<open>an\<close> only \<open>Banana\<close> matches: the second group
  vanishes with its header, and the first keeps its header only when headers are rendered.
\<close>

theorem createStateUpdate_rows_witness:
  "rows (createStateUpdate (sample_props True (Some ''an'') None)) =
     [IFlattenedGroup ''fruit'', IFlattenedItem item_b]
   \<and> rows (createStateUpdate (sample_props False (Some ''an'') None)) = [IFlattenedItem item_b]
   \<and> rows (createStateUpdate (sample_props True None None)) =
       [IFlattenedGroup ''fruit'', IFlattenedItem item_a, IFlattenedItem item_b,
        IFlattenedItem item_c, IFlattenedGroup ''greeting'', IFlattenedItem item_hello]"
proof -
  have g: "groups (sample_props h ft None) =
      [\<lparr>group_identifier = ''fruit'', items = [item_a, item_b, item_c]\<rparr>,
       \<lparr>group_identifier = ''greeting'', items = [item_hello]\<rparr>]"
    "renderGroupHeader (sample_props h ft None) = h"
    "filterText (sample_props h ft None) = ft" for h ft
    by (simp_all add: sample_props_def)
  have m: "sublist ''an'' (toLowerCase (item_text item_b))"
    "\<not> sublist ''an'' (toLowerCase (item_text item_a))"
    "\<not> sublist ''an'' (toLowerCase (item_text item_c))"
    "\<not> sublist ''an'' (toLowerCase (item_text item_hello))"
    "toLowerCase ''an'' = ''an''" "toLowerCase [] = []"
    by code_simp+
  show ?thesis
    using createStateUpdate_rows [of "sample_props True (Some ''an'') None"]
      createStateUpdate_rows [of "sample_props False (Some ''an'') None"]
      createStateUpdate_rows [of "sample_props True None None"]
    by (simp add: g m or_empty_def Let_def)
qed

text \<open>
  Claim C6. An item is shown in the rows exactly when it belongs to one of the groups
  and its lower-cased text contains the lower-cased filter text (the empty string when the
  filter text is absent) as a substring. In particular the item with the text
  \<open>Hello World\<close> is shown under the filters \<open>wor\<close>, \<open>HELLO\<close> and the empty one, and not
  under \<open>xyz\<close>.
\<close>

theorem createStateUpdate_match:
  "(IFlattenedItem i \<in> set (rows (createStateUpdate p)) \<longleftrightarrow>
      (\<exists>g \<in> set (groups p). i \<in> set (items g))
      \<and> sublist (toLowerCase (or_empty (filterText p))) (toLowerCase (item_text i)))
   \<and> IFlattenedItem item_hello \<in> set (rows (createStateUpdate (sample_props h (Some ''wor'') sel)))
   \<and> IFlattenedItem item_hello \<in> set (rows (createStateUpdate (sample_props h (Some ''HELLO'') sel)))
   \<and> IFlattenedItem item_hello \<in> set (rows (createStateUpdate (sample_props h (Some []) sel)))
   \<and> IFlattenedItem item_hello \<in> set (rows (createStateUpdate (sample_props h None sel)))
   \<and> IFlattenedItem item_hello \<notin> set (rows (createStateUpdate (sample_props h (Some ''xyz'') sel)))"
proof -
  have general: "IFlattenedItem i \<in> set (rows (createStateUpdate p)) \<longleftrightarrow>
      (\<exists>g \<in> set (groups p). i \<in> set (items g))
      \<and> sublist (toLowerCase (or_empty (filterText p))) (toLowerCase (item_text i))" for i p
    by (auto simp: rows_concat item_in_group_rows)
  have m: "sublist (toLowerCase ''wor'') (toLowerCase (item_text item_hello))"
    "sublist (toLowerCase ''HELLO'') (toLowerCase (item_text item_hello))"
    "\<not> sublist (toLowerCase ''xyz'') (toLowerCase (item_text item_hello))"
    by code_simp+
  have g: "\<exists>g \<in> set (groups (sample_props h ft sel)). item_hello \<in> set (items g)" for ft
    by (simp add: sample_props_def)
  have ft: "filterText (sample_props h ft sel) = ft" for ft
    by (simp add: sample_props_def)
  show ?thesis
    by (simp add: general g ft m or_empty_def toLowerCase_Nil)
qed

theorem createStateUpdate_match_witness:
  "IFlattenedItem item_b \<in> set (rows (createStateUpdate (sample_props True (Some ''NaN'') None)))
   \<and> IFlattenedItem item_c \<notin> set (rows (createStateUpdate (sample_props True (Some ''NaN'') None)))
   \<and> IFlattenedItem item_z \<notin> set (rows (createStateUpdate (sample_props True None None)))"
proof -
  have m: "sublist (toLowerCase ''NaN'') (toLowerCase (item_text item_b))"
    "\<not> sublist (toLowerCase ''NaN'') (toLowerCase (item_text item_c))"
    by code_simp+
  have z: "item_z \<noteq> item_a" "item_z \<noteq> item_b" "item_z \<noteq> item_c" "item_z \<noteq> item_hello"
    by (simp_all add: item_z_def item_a_def item_b_def item_c_def item_hello_def)
  show ?thesis
    using createStateUpdate_match [of item_b "sample_props True (Some ''NaN'') None"]
      createStateUpdate_match [of item_c "sample_props True (Some ''NaN'') None"]
      createStateUpdate_match [of item_z "sample_props True None None"]
    by (simp add: sample_props_def or_empty_def m z)
qed

section \<open>What the derived state depends on\<close>

text \<open>
  Claim C9. The derived state is a function of the groups, the filter text, the
  selected item and whether a group header renderer is supplied: two property sets that
  agree on these four give the same rows and the same selected row, whatever else
  differs, and receiving such properties a second time leaves the state as the first
  time left it.
\<close>

theorem createStateUpdate_deterministic:
  assumes "groups p = groups q" and "filterText p = filterText q"
    and "selectedItem p = selectedItem q" and "renderGroupHeader p = renderGroupHeader q"
  shows "createStateUpdate p = createStateUpdate q
    \<and> state (FilterList_componentWillReceiveProps (FilterList_componentWillReceiveProps this p) q)
        = state (FilterList_componentWillReceiveProps this p)"
proof -
  have r: "rows (createStateUpdate p) = rows (createStateUpdate q)"
    by (simp add: rows_concat assms)
  have "selectedRow (createStateUpdate p) = selectedRow (createStateUpdate q)"
    by (simp add: selectedRow_createStateUpdate [of p] selectedRow_createStateUpdate [of q] r assms)
  with r have "createStateUpdate p = createStateUpdate q"
    by (simp add: IFilterListState.equality)
  then show ?thesis
    by (simp add: FilterList_componentWillReceiveProps_def)
qed

text \<open>
  Two property sets that differ in the click callback and the disabled flag only.
\<close>

theorem createStateUpdate_deterministic_witness:
  "createStateUpdate (sample_props True (Some ''an'') (Some item_b)) =
     createStateUpdate
       ((sample_props True (Some ''an'') (Some item_b))\<lparr>onItemClick := False, disabled := Some True\<rparr>)
   \<and> sample_props True (Some ''an'') (Some item_b) \<noteq>
       (sample_props True (Some ''an'') (Some item_b))\<lparr>onItemClick := False, disabled := Some True\<rparr>"
proof -
  let ?p = "sample_props True (Some ''an'') (Some item_b)"
  let ?q = "?p\<lparr>onItemClick := False, disabled := Some True\<rparr>"
  have "groups ?p = groups ?q" "filterText ?p = filterText ?q"
    "selectedItem ?p = selectedItem ?q" "renderGroupHeader ?p = renderGroupHeader ?q"
    by simp_all
  from createStateUpdate_deterministic [OF this] have "createStateUpdate ?p = createStateUpdate ?q"
    by simp
  moreover have "onItemClick ?p \<noteq> onItemClick ?q"
    by (simp add: sample_props_def)
  then have "?p \<noteq> ?q" by metis
  ultimately show ?thesis by simp
qed

section \<open>Without a group header renderer\<close>

lemma row_at_in_range:
  "0 \<le> i \<Longrightarrow> i < int (length rs) \<Longrightarrow> row_at rs i = Some (rs ! nat i)"
  by (simp add: row_at_def)

lemma row_at_out_of_range: "i < 0 \<or> int (length rs) \<le> i \<Longrightarrow> row_at rs i = None"
  by (auto simp: row_at_def)

lemma group_rows_no_header: "list_all kind_is_item (group_rows False ft g)"
  by (simp add: group_rows_def Let_def list_all_iff)

text \<open>
  Claim C10. When no group header renderer is supplied, every row of the derived state
  is an item row, and so the component answers that every row index within the rows can
  be selected whenever it is not disabled.
\<close>

theorem no_header_renderer_all_items:
  assumes "\<not> renderGroupHeader p"
  shows "list_all kind_is_item (rows (createStateUpdate p))
    \<and> (\<forall>i. 0 \<le> i \<and> i < int (length (rows (createStateUpdate p))) \<and> \<not> truthy_bool (disabled p)
          \<longrightarrow> FilterList_canSelectRow
                (this\<lparr>props := p, state := createStateUpdate p\<rparr>) i = Inr True)"
proof -
  have items: "list_all kind_is_item (rows (createStateUpdate p))"
    using assms by (simp add: rows_concat list_all_iff) (metis group_rows_no_header list_all_iff)
  have "FilterList_canSelectRow (this\<lparr>props := p, state := createStateUpdate p\<rparr>) i = Inr True"
    if "0 \<le> i" "i < int (length (rows (createStateUpdate p)))" "\<not> truthy_bool (disabled p)" for i
  proof -
    from that have "nat i < length (rows (createStateUpdate p))" by simp
    with items have "kind_is_item (rows (createStateUpdate p) ! nat i)"
      by (simp add: list_all_length)
    with that show ?thesis
      by (simp add: FilterList_canSelectRow_def row_at_in_range)
  qed
  with items show ?thesis by blast
qed

theorem no_header_renderer_all_items_witness:
  "\<not> renderGroupHeader (sample_props False (Some ''an'') None)
   \<and> rows (createStateUpdate (sample_props False (Some ''an'') None)) \<noteq> []
   \<and> list_all kind_is_item (rows (createStateUpdate (sample_props False (Some ''an'') None)))
   \<and> FilterList_canSelectRow (sample_list False (Some ''an'') None) 0 = Inr True"
proof -
  let ?p = "sample_props False (Some ''an'') None"
  have h: "\<not> renderGroupHeader ?p" by (simp add: sample_props_def)
  have n: "rows (createStateUpdate ?p) \<noteq> []" by code_simp
  have d: "\<not> truthy_bool (disabled ?p)" by (simp add: sample_props_def truthy_bool_def)
  have e: "sample_list False (Some ''an'') None =
      (sample_list False (Some ''an'') None)\<lparr>props := ?p, state := createStateUpdate ?p\<rparr>"
    by (simp add: sample_list_def rendered_def)
  from no_header_renderer_all_items [OF h, of "sample_list False (Some ''an'') None"] n d
  have "list_all kind_is_item (rows (createStateUpdate ?p))"
    and "FilterList_canSelectRow
           ((sample_list False (Some ''an'') None)\<lparr>props := ?p, state := createStateUpdate ?p\<rparr>) 0
         = Inr True"
    by simp_all
  with h n e show ?thesis by simp
qed

section \<open>Row indices outside the rows\<close>

lemma getItemIdFromRowIndex_item_id_at: "getItemIdFromRowIndex rs k = item_id_at rs k"
  by (simp add: getItemIdFromRowIndex_def item_id_at_def row_item_id_def
      split: IFilterListRow.splits)

text \<open>
  Claim C8, as stated, fails: the selectability predicate, the selection-changed handler
  and the row-click handler read \<open>rows[index].kind\<close> without a bounds check. One past the
  end of the six sample rows each of them throws.
\<close>

theorem out_of_range_index_counterexample:
  "int (length (rows (state (sample_list True None None)))) \<le> 6
   \<and> FilterList_canSelectRow (sample_list True None None) 6 = Inl TypeError
   \<and> FilterList_onSelectionChanged (sample_list True None None) 6 (ListSource PointerOrKeyboard)
       = Inl TypeError
   \<and> FilterList_onRowClick (sample_list True None None) 6 = Inl TypeError"
proof -
  let ?t = "sample_list True None None"
  have n: "int (length (rows (state ?t))) \<le> 6" by code_simp
  then have r: "row_at (rows (state ?t)) 6 = None"
    by (simp add: row_at_out_of_range)
  have p: "\<not> truthy_bool (disabled (props ?t))" "onSelectionChanged (props ?t)"
    "onItemClick (props ?t)"
    by code_simp+
  show ?thesis
    using n
    by (simp add: r p FilterList_canSelectRow_def FilterList_onSelectionChanged_def
        FilterList_onRowClick_def)
qed

text \<open>
  Claim C8, amended. The selected-item lookup used by the reconciler resolves every
  index outside the rows to no item and no id. The selectability predicate, the
  selection-changed handler and the row-click handler never throw on an index within the
  rows; on an index outside the rows they answer false, or do nothing beyond storing the
  index, only when the component is disabled, respectively when the callback concerned
  is not supplied, and throw a \<open>TypeError\<close> otherwise.
\<close>

theorem out_of_range_index:
  "(i < 0 \<or> int (length (rows (state this))) \<le> i \<longrightarrow>
      getItemFromRowIndex (rows (state this)) i = None
      \<and> getItemIdFromRowIndex (rows (state this)) i = None
      \<and> FilterList_canSelectRow this i =
          (if truthy_bool (disabled (props this)) then Inr False else Inl TypeError)
      \<and> FilterList_onSelectionChanged this i source =
          (if onSelectionChanged (props this) then Inl TypeError
           else Inr (setState_selectedRow this i, []))
      \<and> FilterList_onRowClick this i =
          (if onItemClick (props this) then Inl TypeError else Inr []))
   \<and> (0 \<le> i \<and> i < int (length (rows (state this))) \<longrightarrow>
      FilterList_canSelectRow this i =
          Inr (\<not> truthy_bool (disabled (props this)) \<and> kind_is_item (rows (state this) ! nat i))
      \<and> FilterList_onSelectionChanged this i source =
          Inr (setState_selectedRow this i,
               case rows (state this) ! nat i of
                 IFlattenedItem item \<Rightarrow>
                   if onSelectionChanged (props this)
                   then [Call_onSelectionChanged (Some item) source] else []
               | IFlattenedGroup g \<Rightarrow> [])
      \<and> FilterList_onRowClick this i =
          Inr (case rows (state this) ! nat i of
                 IFlattenedItem item \<Rightarrow> if onItemClick (props this) then [Call_onItemClick item] else []
               | IFlattenedGroup g \<Rightarrow> []))"
proof (intro conjI impI)
  assume out: "i < 0 \<or> int (length (rows (state this))) \<le> i"
  then have r: "row_at (rows (state this)) i = None"
    by (rule row_at_out_of_range)
  from out show "getItemFromRowIndex (rows (state this)) i = None"
    by auto
  from out show "getItemIdFromRowIndex (rows (state this)) i = None"
    by (auto simp: getItemIdFromRowIndex_def)
  show "FilterList_canSelectRow this i =
      (if truthy_bool (disabled (props this)) then Inr False else Inl TypeError)"
    by (simp add: FilterList_canSelectRow_def r)
  show "FilterList_onSelectionChanged this i source =
      (if onSelectionChanged (props this) then Inl TypeError
       else Inr (setState_selectedRow this i, []))"
    by (simp add: FilterList_onSelectionChanged_def Let_def r)
  show "FilterList_onRowClick this i =
      (if onItemClick (props this) then Inl TypeError else Inr [])"
    by (simp add: FilterList_onRowClick_def r)
next
  assume "0 \<le> i \<and> i < int (length (rows (state this)))"
  then have r: "row_at (rows (state this)) i = Some (rows (state this) ! nat i)"
    by (simp add: row_at_in_range)
  show "FilterList_canSelectRow this i =
      Inr (\<not> truthy_bool (disabled (props this)) \<and> kind_is_item (rows (state this) ! nat i))"
    by (simp add: FilterList_canSelectRow_def r)
  show "FilterList_onSelectionChanged this i source =
      Inr (setState_selectedRow this i,
           case rows (state this) ! nat i of
             IFlattenedItem item \<Rightarrow>
               if onSelectionChanged (props this)
               then [Call_onSelectionChanged (Some item) source] else []
           | IFlattenedGroup g \<Rightarrow> [])"
    by (simp add: FilterList_onSelectionChanged_def Let_def r split: IFilterListRow.splits)
  show "FilterList_onRowClick this i =
      Inr (case rows (state this) ! nat i of
             IFlattenedItem item \<Rightarrow> if onItemClick (props this) then [Call_onItemClick item] else []
           | IFlattenedGroup g \<Rightarrow> [])"
    by (simp add: FilterList_onRowClick_def r split: IFilterListRow.splits)
qed

text \<open>
  The six sample rows: the stale index 6 and the index \<open>-1\<close> give no item; index 1 is the
  item row of \<open>a\<close> and index 0 a header.
\<close>

theorem out_of_range_index_witness:
  "getItemFromRowIndex (rows (state (sample_list True None None))) 6 = None
   \<and> getItemIdFromRowIndex (rows (state (sample_list True None None))) (-1) = None
   \<and> FilterList_canSelectRow (sample_list True None None) 1 = Inr True
   \<and> FilterList_canSelectRow (sample_list True None None) 0 = Inr False
   \<and> FilterList_onRowClick (sample_list True None None) 1 = Inr [Call_onItemClick item_a]
   \<and> FilterList_onRowClick (sample_list True None None) 0 = Inr []"
proof -
  let ?t = "sample_list True None None"
  have st: "rows (state ?t) =
      [IFlattenedGroup ''fruit'', IFlattenedItem item_a, IFlattenedItem item_b,
       IFlattenedItem item_c, IFlattenedGroup ''greeting'', IFlattenedItem item_hello]"
    by code_simp
  have pr: "\<not> truthy_bool (disabled (props ?t))" "onItemClick (props ?t)"
    by code_simp+
  show ?thesis
    using out_of_range_index [of 6 ?t] out_of_range_index [of "-1" ?t]
      out_of_range_index [of 1 ?t] out_of_range_index [of 0 ?t]
    by (simp add: st pr)
qed

section \<open>The selection reconciler\<close>

lemma getItemFromRowIndex_id:
  "map_option item_id (getItemFromRowIndex rs k) = item_id_at rs k"
  by (simp add: item_id_at_def row_item_id_def split: IFilterListRow.splits)

text \<open>
  Claim C3, as stated, fails when the caller supplies no selection-changed callback:
  the filter \<open>ch\<close> moves the selection from nothing to the item \<open>c\<close>, which the caller's
  selected item (none) does not match, and yet nothing is emitted.
\<close>

theorem componentDidUpdate_counterexample:
  "getItemIdFromRowIndex (rows (createStateUpdate (silent_props None)))
      (selectedRow (createStateUpdate (silent_props None))) = None
   \<and> getItemIdFromRowIndex (rows (state (silent_list (Some ''ch''))))
      (selectedRow (state (silent_list (Some ''ch'')))) = Some ''c''
   \<and> selectedItem (props (silent_list (Some ''ch''))) = None
   \<and> FilterList_componentDidUpdate (silent_list (Some ''ch'')) (silent_props None)
        (createStateUpdate (silent_props None)) = []"
proof -
  have "getItemIdFromRowIndex (rows (createStateUpdate (silent_props None)))
      (selectedRow (createStateUpdate (silent_props None))) = None"
    by code_simp
  moreover have "getItemIdFromRowIndex (rows (state (silent_list (Some ''ch''))))
      (selectedRow (state (silent_list (Some ''ch'')))) = Some ''c''"
    by code_simp
  moreover have "props (silent_list (Some ''ch'')) = silent_props (Some ''ch'')"
    by (simp add: silent_list_def rendered_def)
  moreover have "selectedItem (silent_props (Some ''ch'')) = None"
    "\<not> onSelectionChanged (silent_props (Some ''ch''))"
    by (simp_all add: silent_props_def sample_props_def)
  ultimately show ?thesis
    by (simp add: FilterList_componentDidUpdate_def)
qed

text \<open>
  Claim C3, amended. When the caller supplies a selection-changed callback, one
  notification, carrying the newly selected item and the source \<open>filter\<close> with the
  current filter text (the empty string when absent), is emitted if and only if the item
  id at the new selected row differs from the item id at the previous selected row (each
  none when the index is \<open>-1\<close>, outside the rows or at a group header) and from the id of
  the caller's selected item. When no callback is supplied nothing is emitted.
\<close>

theorem componentDidUpdate_notification:
  "FilterList_componentDidUpdate this prevProps prevState =
     (if onSelectionChanged (props this)
         \<and> item_id_at (rows prevState) (selectedRow prevState)
             \<noteq> item_id_at (rows (state this)) (selectedRow (state this))
         \<and> map_option item_id (selectedItem (props this))
             \<noteq> item_id_at (rows (state this)) (selectedRow (state this))
      then [Call_onSelectionChanged
              (getItemFromRowIndex (rows (state this)) (selectedRow (state this)))
              (IFilterSelectionSource (case filterText (props this) of None \<Rightarrow> [] | Some t \<Rightarrow> t))]
      else [])
   \<and> map_option item_id (getItemFromRowIndex (rows (state this)) (selectedRow (state this)))
       = item_id_at (rows (state this)) (selectedRow (state this))"
proof -
  have "(case selectedItem (props this) of Some item \<Rightarrow> Some (item_id item) | None \<Rightarrow> None)
      = map_option item_id (selectedItem (props this))"
    by (simp split: option.splits)
  then show ?thesis
    by (simp add: FilterList_componentDidUpdate_def Let_def getItemIdFromRowIndex_item_id_at
        getItemFromRowIndex_id or_empty_eq del: getItemFromRowIndex.simps)
qed

text \<open>
  With the callback supplied: the filter \<open>ch\<close> moves the selection from nothing to \<open>c\<close>
  and the caller is told; an unchanged state tells nothing; and a selection of \<open>b\<close> that
  the caller's own selected item already names tells nothing.
\<close>

theorem componentDidUpdate_notification_witness:
  "FilterList_componentDidUpdate (sample_list True (Some ''ch'') None) (sample_props True None None)
      (createStateUpdate (sample_props True None None))
     = [Call_onSelectionChanged (Some item_c) (IFilterSelectionSource ''ch'')]
   \<and> FilterList_componentDidUpdate (sample_list True (Some ''ch'') None)
        (sample_props True (Some ''ch'') None) (createStateUpdate (sample_props True (Some ''ch'') None))
     = []
   \<and> FilterList_componentDidUpdate (sample_list True None (Some item_b)) (sample_props True None None)
        (createStateUpdate (sample_props True None None))
     = []"
proof -
  let ?t = "sample_list True (Some ''ch'') None"
  let ?u = "sample_list True None (Some item_b)"
  let ?prev = "createStateUpdate (sample_props True None None)"
  have old: "item_id_at (rows ?prev) (selectedRow ?prev) = None"
    by code_simp
  have new: "item_id_at (rows (state ?t)) (selectedRow (state ?t)) = Some ''c''"
    "item_id_at (rows (state ?u)) (selectedRow (state ?u)) = Some ''b''"
    "getItemFromRowIndex (rows (state ?t)) (selectedRow (state ?t)) = Some item_c"
    by code_simp+
  have same: "createStateUpdate (sample_props True (Some ''ch'') None) = state ?t"
    by (simp add: sample_list_def rendered_def)
  have pr: "onSelectionChanged (props ?t)" "onSelectionChanged (props ?u)"
    "selectedItem (props ?t) = None" "selectedItem (props ?u) = Some item_b"
    "filterText (props ?t) = Some ''ch''" "item_id item_b = ''b''"
    by (simp_all add: sample_list_def rendered_def sample_props_def item_b_def)
  show ?thesis
    using componentDidUpdate_notification [of ?t "sample_props True None None" ?prev]
      componentDidUpdate_notification [of ?t "sample_props True (Some ''ch'') None" "state ?t"]
      componentDidUpdate_notification [of ?u "sample_props True None None" ?prev]
    by (simp add: old new same pr del: getItemFromRowIndex.simps)
qed

section \<open>The list control as rendered\<close>

text \<open>
  The two queries the component makes, answered by the list it renders: the rows are
  scanned from the top, respectively from the bottom, no call faults, and the answer is
  the first row met that is an item row of a component that is not disabled.
\<close>

lemma rows_past_down: "rows_past n Down (-1) = map int [0..<n]"
  by (simp add: rows_past_def)

lemma rows_past_up: "rows_past n Up 0 = map int (rev [0..<n])"
proof -
  have "(- 1 - int k) mod int n = int (n - 1 - k)" if "k < n" for k
  proof -
    have "(- 1 - int k) mod int n = (- 1 - int k + int n) mod int n"
      by (simp only: mod_add_self2)
    also have "- 1 - int k + int n = int (n - 1 - k)"
      using that by linarith
    also have "int (n - 1 - k) mod int n = int (n - 1 - k)"
      by (rule mod_pos_pos_trivial) (use that in linarith)+
    finally show ?thesis .
  qed
  then have "rows_past n Up 0 = map (\<lambda>k. int (n - 1 - k)) [0..<n]"
    by (simp add: rows_past_def)
  also have "\<dots> = map int (map (\<lambda>k. n - 1 - k) [0..<n])" by simp
  also have "map (\<lambda>k. n - 1 - k) [0..<n] = rev [0..<n]"
    by (rule nth_equalityI) (simp_all add: rev_nth)
  finally show ?thesis .
qed

lemma scan_rows_find:
  "\<forall>i \<in> set is. \<exists>b. can i = Inr b \<Longrightarrow>
     scan_rows can is = Inr (find (\<lambda>i. can i = Inr True) is)"
  by (induction "is") (auto split: sum.splits bool.splits)


lemma canSelectRow_in_range:
  "i < length (rows (state this)) \<Longrightarrow>
     FilterList_canSelectRow this (int i) =
       Inr (\<not> truthy_bool (disabled (props this)) \<and> kind_is_item (rows (state this) ! i))"
  by (simp add: FilterList_canSelectRow_def row_at_def)

lemma rendered_list_scan:
  assumes "set is \<subseteq> {0..<length (rows st)}"
  shows "scan_rows
      (FilterList_canSelectRow \<lparr>props = p, state = st, list_ref = None, filterInput = None\<rparr>)
      (map int is) =
    Inr (map_option int
      (find (\<lambda>i. \<not> truthy_bool (disabled p) \<and> kind_is_item (rows st ! i)) is))"
  using assms by (induction "is") (simp_all add: canSelectRow_in_range)

lemma rendered_list_first:
  "nextSelectableRow (rendered_list p st) Down (-1) =
     Inr (map_option int
       (find (\<lambda>i. \<not> truthy_bool (disabled p) \<and> kind_is_item (rows st ! i)) [0..<length (rows st)]))"
  by (simp add: rendered_list_def List_nextSelectableRow_def rows_past_down rendered_list_scan)

lemma rendered_list_last:
  "nextSelectableRow (rendered_list p st) Up 0 =
     Inr (map_option int
       (find (\<lambda>i. \<not> truthy_bool (disabled p) \<and> kind_is_item (rows st ! i))
          (rev [0..<length (rows st)])))"
  by (simp add: rendered_list_def List_nextSelectableRow_def rows_past_up rendered_list_scan)

section \<open>Enter in the filter input\<close>

lemma list_ref_sample_list:
  "list_ref (sample_list h ft sel) =
     Some (rendered_list (sample_props h ft sel) (createStateUpdate (sample_props h ft sel)))"
  by (simp add: sample_list_def rendered_def sample_props_def)

lemma props_sample_list: "props (sample_list h ft sel) = sample_props h ft sel"
  by (simp add: sample_list_def rendered_def)

lemma state_sample_list: "state (sample_list h ft sel) = createStateUpdate (sample_props h ft sel)"
  by (simp add: sample_list_def rendered_def)

lemma sample_list_no_key_handler:
  "key_event k =
     (case onFilterKeyDown (props (sample_list h ft sel)) of
        None \<Rightarrow> key_event k
      | Some f \<Rightarrow> f (key_event k))"
  by (simp add: props_sample_list sample_props_def)

lemma key_event_simps: "\<not> defaultPrevented (key_event k)" "key (key_event k) = k"
  by (simp_all add: key_event_def)

lemma test_non_whitespace_iff: "test_non_whitespace t \<longleftrightarrow> (\<exists>c \<in> set t. \<not> isWhiteSpace c)"
  by (simp add: test_non_whitespace_def list_ex_iff)

lemma onKeyDown_unfold:
  assumes "list_ref this = Some lst"
    and "ev = (case onFilterKeyDown (props this) of None \<Rightarrow> event | Some h \<Rightarrow> h event)"
    and "\<not> defaultPrevented ev"
  shows "FilterList_onKeyDown this event =
     (if key ev = ''ArrowDown'' then arrow_into_list this lst ev Down (-1)
      else if key ev = ''ArrowUp'' then arrow_into_list this lst ev Up 0
      else if key ev = ''Enter'' then
        (if rows (state this) = [] then Inr (this, preventDefault ev, [])
         else if filterText (props this) \<noteq> None
                 \<and> \<not> test_non_whitespace (the (filterText (props this)))
              then Inr (this, preventDefault ev, [])
              else enter_click this lst ev)
      else Inr (this, ev, []))"
  using assms by (simp add: FilterList_onKeyDown_def Let_def split: option.splits)

text \<open>
  Claim C4, as stated, fails for the empty filter text: the empty string is a supplied
  filter text without a non-whitespace character, so \<open>Enter\<close> is suppressed like on a
  whitespace-only text. Here rows exist, the first selectable row is row 1, a click on it
  would call the item-click callback, and \<open>Enter\<close> calls nothing.
\<close>

theorem onKeyDown_Enter_counterexample:
  "rows (state (sample_list True (Some []) None)) \<noteq> []
   \<and> filterText (props (sample_list True (Some []) None)) = Some []
   \<and> list_ref (sample_list True (Some []) None) \<noteq> None
   \<and> nextSelectableRow (the (list_ref (sample_list True (Some []) None))) Down (-1) = Inr (Some 1)
   \<and> FilterList_onRowClick (sample_list True (Some []) None) 1 = Inr [Call_onItemClick item_a]
   \<and> FilterList_onKeyDown (sample_list True (Some []) None) (key_event ''Enter'')
       = Inr (sample_list True (Some []) None, preventDefault (key_event ''Enter''), [])"
proof -
  let ?t = "sample_list True (Some []) None"
  have r: "rows (state ?t) \<noteq> []" by code_simp
  have f: "filterText (props ?t) = Some []" "onFilterKeyDown (props ?t) = None"
    by (simp_all add: props_sample_list sample_props_def)
  have l: "list_ref ?t \<noteq> None" by (simp add: list_ref_sample_list)
  have n: "nextSelectableRow (the (list_ref ?t)) Down (-1) = Inr (Some 1)" by code_simp
  have c: "FilterList_onRowClick ?t 1 = Inr [Call_onItemClick item_a]" by code_simp
  have e: "\<not> defaultPrevented (key_event ''Enter'')" "key (key_event ''Enter'') = ''Enter''"
    by (simp_all add: key_event_def)
  have "FilterList_onKeyDown ?t (key_event ''Enter'')
      = Inr (?t, preventDefault (key_event ''Enter''), [])"
    by (simp add: FilterList_onKeyDown_def r f e test_non_whitespace_def list_ref_sample_list)
  with r f l n c show ?thesis by simp
qed

text \<open>
  The check \<open>if (row)\<close> is also false for row 0: without group headers the first
  selectable row is row 0, and \<open>Enter\<close> does not click it although the filter text is
  absent.
\<close>

lemma onKeyDown_Enter_row_zero:
  "nextSelectableRow (the (list_ref (sample_list False None None))) Down (-1) = Inr (Some 0)
   \<and> FilterList_onRowClick (sample_list False None None) 0 = Inr [Call_onItemClick item_a]
   \<and> FilterList_onKeyDown (sample_list False None None) (key_event ''Enter'')
       = Inr (sample_list False None None, key_event ''Enter'', [])"
proof -
  let ?t = "sample_list False None None"
  have r: "rows (state ?t) \<noteq> []" by code_simp
  have f: "filterText (props ?t) = None" "onFilterKeyDown (props ?t) = None"
    by (simp_all add: props_sample_list sample_props_def)
  have n: "nextSelectableRow (the (list_ref ?t)) Down (-1) = Inr (Some 0)" by code_simp
  have c: "FilterList_onRowClick ?t 0 = Inr [Call_onItemClick item_a]" by code_simp
  have e: "\<not> defaultPrevented (key_event ''Enter'')" "key (key_event ''Enter'') = ''Enter''"
    by (simp_all add: key_event_def)
  have "FilterList_onKeyDown ?t (key_event ''Enter'') = Inr (?t, key_event ''Enter'', [])"
    using n by (simp add: FilterList_onKeyDown_def enter_click_def r f e list_ref_sample_list)
  with n c show ?thesis by simp
qed

text \<open>
  Claim C4, amended. With the list mounted and the key press not cancelled by the
  caller's key handler, \<open>Enter\<close> in the filter input behaves as follows. If there are no
  rows, the default is suppressed and nothing happens. If a filter text is supplied and
  holds no non-whitespace character, the empty string included, the default is suppressed
  and no item is clicked. Otherwise, that is with the filter text absent or holding a
  non-whitespace character, the list is asked for the first selectable row; when it has
  none nothing happens, and when it names a row other than row 0 the row-click handler
  runs on that row, exactly as if the row had been clicked.
\<close>

theorem onKeyDown_Enter:
  assumes "list_ref this = Some lst"
    and "ev = (case onFilterKeyDown (props this) of None \<Rightarrow> event | Some h \<Rightarrow> h event)"
    and "\<not> defaultPrevented ev" and "key ev = ''Enter''"
  shows "(rows (state this) = [] \<longrightarrow>
            FilterList_onKeyDown this event = Inr (this, preventDefault ev, []))
    \<and> (rows (state this) \<noteq> []
         \<and> (\<exists>t. filterText (props this) = Some t \<and> (\<forall>c \<in> set t. isWhiteSpace c)) \<longrightarrow>
            FilterList_onKeyDown this event = Inr (this, preventDefault ev, []))
    \<and> (rows (state this) \<noteq> []
         \<and> (filterText (props this) = None
             \<or> (\<exists>t. filterText (props this) = Some t \<and> (\<exists>c \<in> set t. \<not> isWhiteSpace c))) \<longrightarrow>
            (nextSelectableRow lst Down (-1) = Inr None \<longrightarrow>
               FilterList_onKeyDown this event = Inr (this, ev, []))
            \<and> (\<forall>r. r \<noteq> 0 \<and> nextSelectableRow lst Down (-1) = Inr (Some r) \<longrightarrow>
                 FilterList_onKeyDown this event =
                   (case FilterList_onRowClick this r of
                      Inl e \<Rightarrow> Inl e
                    | Inr effs \<Rightarrow> Inr (this, ev, effs))))"
proof -
  have k: "key ev \<noteq> ''ArrowDown''" "key ev \<noteq> ''ArrowUp''"
    using assms(4) by simp_all
  note u = onKeyDown_unfold [OF assms(1-3), unfolded if_not_P [OF k(1)] if_not_P [OF k(2)]]
  show ?thesis
  proof (intro conjI impI allI)
    assume "rows (state this) = []"
    then show "FilterList_onKeyDown this event = Inr (this, preventDefault ev, [])"
      by (simp add: u assms(4))
  next
    assume "rows (state this) \<noteq> []
      \<and> (\<exists>t. filterText (props this) = Some t \<and> (\<forall>c \<in> set t. isWhiteSpace c))"
    then show "FilterList_onKeyDown this event = Inr (this, preventDefault ev, [])"
      by (auto simp: u assms(4) test_non_whitespace_iff)
  next
    assume a: "rows (state this) \<noteq> []
      \<and> (filterText (props this) = None
          \<or> (\<exists>t. filterText (props this) = Some t \<and> (\<exists>c \<in> set t. \<not> isWhiteSpace c)))"
    then have e: "FilterList_onKeyDown this event = enter_click this lst ev"
      by (auto simp: u assms(4) test_non_whitespace_iff)
    {
      assume "nextSelectableRow lst Down (-1) = Inr None"
      then show "FilterList_onKeyDown this event = Inr (this, ev, [])"
        by (simp add: e enter_click_def)
    }
    {
      fix r
      assume "r \<noteq> 0 \<and> nextSelectableRow lst Down (-1) = Inr (Some r)"
      then show "FilterList_onKeyDown this event =
          (case FilterList_onRowClick this r of
             Inl e \<Rightarrow> Inl e
           | Inr effs \<Rightarrow> Inr (this, ev, effs))"
        by (simp add: e enter_click_def)
    }
  qed
qed

text \<open>
  The sample component under four filter texts: \<open>zzz\<close> leaves no row; a single space
  keeps the row of \<open>Hello World\<close> but is whitespace only; \<open>an\<close> and the absent filter
  text let \<open>Enter\<close> click row 1, the first item row under the first header.
\<close>

theorem onKeyDown_Enter_witness:
  "FilterList_onKeyDown (sample_list True (Some ''zzz'') None) (key_event ''Enter'')
     = Inr (sample_list True (Some ''zzz'') None, preventDefault (key_event ''Enter''), [])
   \<and> rows (state (sample_list True (Some '' '') None)) \<noteq> []
   \<and> FilterList_onKeyDown (sample_list True (Some '' '') None) (key_event ''Enter'')
     = Inr (sample_list True (Some '' '') None, preventDefault (key_event ''Enter''), [])
   \<and> FilterList_onKeyDown (sample_list True (Some ''an'') None) (key_event ''Enter'')
     = Inr (sample_list True (Some ''an'') None, key_event ''Enter'', [Call_onItemClick item_b])
   \<and> FilterList_onKeyDown (sample_list True None None) (key_event ''Enter'')
     = Inr (sample_list True None None, key_event ''Enter'', [Call_onItemClick item_a])"
proof -
  let ?e = "key_event ''Enter''"
  let ?t0 = "sample_list True (Some ''zzz'') None"
  let ?t1 = "sample_list True (Some '' '') None"
  let ?t2 = "sample_list True (Some ''an'') None"
  let ?t3 = "sample_list True None None"
  note T0 = onKeyDown_Enter [OF list_ref_sample_list sample_list_no_key_handler key_event_simps,
      of True "Some ''zzz''" None]
  note T1 = onKeyDown_Enter [OF list_ref_sample_list sample_list_no_key_handler key_event_simps,
      of True "Some '' ''" None]
  note T2 = onKeyDown_Enter [OF list_ref_sample_list sample_list_no_key_handler key_event_simps,
      of True "Some ''an''" None]
  note T3 = onKeyDown_Enter [OF list_ref_sample_list sample_list_no_key_handler key_event_simps,
      of True None None]
  have r: "rows (state ?t0) = []" "rows (state ?t1) \<noteq> []" "rows (state ?t2) \<noteq> []"
    "rows (state ?t3) \<noteq> []"
    by code_simp+
  have w: "\<forall>c \<in> set '' ''. isWhiteSpace c" "\<exists>c \<in> set ''an''. \<not> isWhiteSpace c"
    by code_simp+
  have n: "nextSelectableRow (rendered_list (sample_props True (Some ''an'') None)
             (createStateUpdate (sample_props True (Some ''an'') None))) Down (-1) = Inr (Some 1)"
    "nextSelectableRow (rendered_list (sample_props True None None)
             (createStateUpdate (sample_props True None None))) Down (-1) = Inr (Some 1)"
    by code_simp+
  have c: "FilterList_onRowClick ?t2 1 = Inr [Call_onItemClick item_b]"
    "FilterList_onRowClick ?t3 1 = Inr [Call_onItemClick item_a]"
    by code_simp+
  have f: "filterText (props (sample_list h ft sel)) = ft" for h ft sel
    by (simp add: props_sample_list sample_props_def)
  from T0 r(1) have "FilterList_onKeyDown ?t0 ?e = Inr (?t0, preventDefault ?e, [])"
    by simp
  moreover from T1 r(2) w(1) have "FilterList_onKeyDown ?t1 ?e = Inr (?t1, preventDefault ?e, [])"
    by (simp add: f)
  moreover from T2 r(3) w(2) n(1) have "FilterList_onKeyDown ?t2 ?e =
      (case FilterList_onRowClick ?t2 1 of Inl e \<Rightarrow> Inl e | Inr effs \<Rightarrow> Inr (?t2, ?e, effs))"
    by (simp add: f)
  moreover from T3 r(4) n(2) have "FilterList_onKeyDown ?t3 ?e =
      (case FilterList_onRowClick ?t3 1 of Inl e \<Rightarrow> Inl e | Inr effs \<Rightarrow> Inr (?t3, ?e, effs))"
    by (simp add: f)
  ultimately show ?thesis
    using r(2) by (simp add: c)
qed

section \<open>Focus at the boundaries of the list\<close>

text \<open>
  Claim C5, as stated, fails when the caller's key handler cancels the key press: rows
  exist and the first selectable row is row 1, yet \<open>ArrowDown\<close> in the filter input
  neither stores a selected row (it stays \<open>-1\<close>) nor focuses the list.
\<close>

theorem boundary_focus_counterexample:
  "rows (state cancelling_list) \<noteq> []
   \<and> list_ref cancelling_list \<noteq> None
   \<and> nextSelectableRow (the (list_ref cancelling_list)) Down (-1) = Inr (Some 1)
   \<and> selectedRow (state cancelling_list) = -1
   \<and> FilterList_onKeyDown cancelling_list (key_event ''ArrowDown'')
       = Inr (cancelling_list, preventDefault (key_event ''ArrowDown''), [])"
proof -
  have r: "rows (state cancelling_list) \<noteq> []" by code_simp
  have l: "list_ref cancelling_list =
      Some (rendered_list cancelling_props (createStateUpdate cancelling_props))"
    by (simp add: cancelling_list_def rendered_def cancelling_props_def sample_props_def)
  have n: "nextSelectableRow (the (list_ref cancelling_list)) Down (-1) = Inr (Some 1)"
    by code_simp
  have v: "selectedRow (state cancelling_list) = -1" by code_simp
  have h: "onFilterKeyDown (props cancelling_list) = Some preventDefault"
    by (simp add: cancelling_list_def rendered_def cancelling_props_def)
  have "FilterList_onKeyDown cancelling_list (key_event ''ArrowDown'')
      = Inr (cancelling_list, preventDefault (key_event ''ArrowDown''), [])"
    by (simp add: FilterList_onKeyDown_def l h preventDefault_def)
  with r l n v show ?thesis by simp
qed

text \<open>
  Claim C5, amended. With the list and the filter input mounted, \<open>ArrowUp\<close> on the row
  the list reports as its first selectable row, and \<open>ArrowDown\<close> on the row it reports as
  its last, move the focus to the filter input, cancel the list's default handling and
  leave the selected row as it is. In the filter input, with the list mounted, the key
  press not cancelled by the caller's key handler and at least one row present,
  \<open>ArrowDown\<close> stores the first selectable row reported by the list as the selected row
  and \<open>ArrowUp\<close> the last one, the list is focused and the input's default is suppressed.
  When the caller's key handler has cancelled the key press, whatever the key, nothing
  further happens: the component is left as it was, the event is the one the handler
  returned, and neither the list nor any callback is reached.
\<close>

theorem boundary_focus:
  "(list_ref this = Some lst \<and> filterInput this = Some input
      \<and> nextSelectableRow lst Down (-1) = Inr firstSelectableRow
      \<and> nextSelectableRow lst Up 0 = Inr lastSelectableRow
      \<and> ((key event = ''ArrowUp'' \<and> firstSelectableRow = Some row)
          \<or> (key event = ''ArrowDown'' \<and> lastSelectableRow = Some row)) \<longrightarrow>
        FilterList_onRowKeyDown this row event = Inr (this, preventDefault event, [Input_focus]))
   \<and> (list_ref this = Some lst
      \<and> ev = (case onFilterKeyDown (props this) of None \<Rightarrow> event | Some h \<Rightarrow> h event)
      \<and> \<not> defaultPrevented ev \<and> rows (state this) \<noteq> []
      \<and> ((key ev = ''ArrowDown'' \<and> nextSelectableRow lst Down (-1) = Inr (Some r))
          \<or> (key ev = ''ArrowUp'' \<and> nextSelectableRow lst Up 0 = Inr (Some r))) \<longrightarrow>
        FilterList_onKeyDown this event =
          Inr (setState_selectedRow this r, preventDefault ev, [List_focus])
        \<and> selectedRow (state (setState_selectedRow this r)) = r
        \<and> rows (state (setState_selectedRow this r)) = rows (state this)
        \<and> defaultPrevented (preventDefault ev))
   \<and> (list_ref this = Some lst
      \<and> ev = (case onFilterKeyDown (props this) of None \<Rightarrow> event | Some h \<Rightarrow> h event)
      \<and> defaultPrevented ev \<longrightarrow>
        FilterList_onKeyDown this event = Inr (this, ev, []))"
proof (intro conjI impI)
  assume "list_ref this = Some lst \<and> filterInput this = Some input
      \<and> nextSelectableRow lst Down (-1) = Inr firstSelectableRow
      \<and> nextSelectableRow lst Up 0 = Inr lastSelectableRow
      \<and> ((key event = ''ArrowUp'' \<and> firstSelectableRow = Some row)
          \<or> (key event = ''ArrowDown'' \<and> lastSelectableRow = Some row))"
  then show "FilterList_onRowKeyDown this row event
      = Inr (this, preventDefault event, [Input_focus])"
    by (auto simp: FilterList_onRowKeyDown_def)
next
  assume a: "list_ref this = Some lst
      \<and> ev = (case onFilterKeyDown (props this) of None \<Rightarrow> event | Some h \<Rightarrow> h event)
      \<and> \<not> defaultPrevented ev \<and> rows (state this) \<noteq> []
      \<and> ((key ev = ''ArrowDown'' \<and> nextSelectableRow lst Down (-1) = Inr (Some r))
          \<or> (key ev = ''ArrowUp'' \<and> nextSelectableRow lst Up 0 = Inr (Some r)))"
  then have u: "FilterList_onKeyDown this event =
      (if key ev = ''ArrowDown'' then arrow_into_list this lst ev Down (-1)
       else arrow_into_list this lst ev Up 0)"
    using onKeyDown_unfold [of this lst ev event] by auto
  from a have "key ev = ''ArrowDown'' \<and> nextSelectableRow lst Down (-1) = Inr (Some r)
      \<or> key ev \<noteq> ''ArrowDown'' \<and> nextSelectableRow lst Up 0 = Inr (Some r)"
    by auto
  with a show "FilterList_onKeyDown this event
      = Inr (setState_selectedRow this r, preventDefault ev, [List_focus])"
    by (auto simp: u arrow_into_list_def)
  show "selectedRow (state (setState_selectedRow this r)) = r"
    by (simp add: setState_selectedRow_def)
  show "rows (state (setState_selectedRow this r)) = rows (state this)"
    by (simp add: setState_selectedRow_def)
  show "defaultPrevented (preventDefault ev)"
    by (simp add: preventDefault_def)
next
  assume c: "list_ref this = Some lst
      \<and> ev = (case onFilterKeyDown (props this) of None \<Rightarrow> event | Some h \<Rightarrow> h event)
      \<and> defaultPrevented ev"
  then have l: "list_ref this = Some lst" and d: "defaultPrevented ev"
    and e: "(case onFilterKeyDown (props this) of None \<Rightarrow> event | Some h \<Rightarrow> h event) = ev"
    by blast+
  show "FilterList_onKeyDown this event = Inr (this, ev, [])"
    by (simp add: FilterList_onKeyDown_def Let_def l e d)
qed

text \<open>
  The sample rows under the filter \<open>a\<close>: a header, then \<open>Apple\<close> (row 1, the first
  selectable row) and \<open>Banana\<close> (row 2, the last). In the component whose caller cancels
  every key press, \<open>ArrowUp\<close> in the filter input changes nothing.
\<close>

theorem boundary_focus_witness:
  "FilterList_onRowKeyDown (sample_list True (Some ''a'') None) 1 (key_event ''ArrowUp'')
     = Inr (sample_list True (Some ''a'') None, preventDefault (key_event ''ArrowUp''), [Input_focus])
   \<and> FilterList_onRowKeyDown (sample_list True (Some ''a'') None) 2 (key_event ''ArrowDown'')
     = Inr (sample_list True (Some ''a'') None, preventDefault (key_event ''ArrowDown''), [Input_focus])
   \<and> FilterList_onKeyDown (sample_list True (Some ''a'') None) (key_event ''ArrowDown'')
     = Inr (setState_selectedRow (sample_list True (Some ''a'') None) 1,
            preventDefault (key_event ''ArrowDown''), [List_focus])
   \<and> FilterList_onKeyDown (sample_list True (Some ''a'') None) (key_event ''ArrowUp'')
     = Inr (setState_selectedRow (sample_list True (Some ''a'') None) 2,
            preventDefault (key_event ''ArrowUp''), [List_focus])
   \<and> FilterList_onKeyDown cancelling_list (key_event ''ArrowUp'')
     = Inr (cancelling_list, preventDefault (key_event ''ArrowUp''), [])"
proof -
  let ?t = "sample_list True (Some ''a'') None"
  let ?lst = "rendered_list (sample_props True (Some ''a'') None)
     (createStateUpdate (sample_props True (Some ''a'') None))"
  have l: "list_ref ?t = Some ?lst" by (rule list_ref_sample_list)
  have i: "filterInput ?t = Some InputElement" by (simp add: sample_list_def rendered_def)
  have n: "nextSelectableRow ?lst Down (-1) = Inr (Some 1)"
    "nextSelectableRow ?lst Up 0 = Inr (Some 2)"
    by code_simp+
  have r: "rows (state ?t) \<noteq> []" by code_simp
  note h = sample_list_no_key_handler [of _ True "Some ''a''" None]
  let ?clst = "rendered_list cancelling_props (createStateUpdate cancelling_props)"
  let ?up = "key_event ''ArrowUp''"
  have cl: "list_ref cancelling_list = Some ?clst"
    by (simp add: cancelling_list_def rendered_def cancelling_props_def sample_props_def)
  have ch: "preventDefault ?up =
      (case onFilterKeyDown (props cancelling_list) of None \<Rightarrow> ?up | Some f \<Rightarrow> f ?up)"
    by (simp add: cancelling_list_def rendered_def cancelling_props_def)
  have cp: "defaultPrevented (preventDefault ?up)"
    by (simp add: preventDefault_def)
  from boundary_focus [where this = cancelling_list and lst = ?clst and event = ?up
      and ev = "preventDefault ?up"] cl ch cp
  have cancelled: "FilterList_onKeyDown cancelling_list ?up
      = Inr (cancelling_list, preventDefault ?up, [])"
    by blast
  have "FilterList_onRowKeyDown ?t 1 (key_event ''ArrowUp'')
        = Inr (?t, preventDefault (key_event ''ArrowUp''), [Input_focus])
      \<and> FilterList_onRowKeyDown ?t 2 (key_event ''ArrowDown'')
        = Inr (?t, preventDefault (key_event ''ArrowDown''), [Input_focus])
      \<and> FilterList_onKeyDown ?t (key_event ''ArrowDown'')
        = Inr (setState_selectedRow ?t 1, preventDefault (key_event ''ArrowDown''), [List_focus])
      \<and> FilterList_onKeyDown ?t (key_event ''ArrowUp'')
        = Inr (setState_selectedRow ?t 2, preventDefault (key_event ''ArrowUp''), [List_focus])"
    using
      boundary_focus [where this = ?t and lst = ?lst and input = InputElement
        and firstSelectableRow = "Some 1" and lastSelectableRow = "Some 2"
        and event = "key_event ''ArrowUp''" and row = 1
        and ev = "key_event ''ArrowUp''" and r = 2]
      boundary_focus [where this = ?t and lst = ?lst and input = InputElement
        and firstSelectableRow = "Some 1" and lastSelectableRow = "Some 2"
        and event = "key_event ''ArrowDown''" and row = 2
        and ev = "key_event ''ArrowDown''" and r = 1]
    by (simp add: l i n r h [symmetric] key_event_simps)
  with cancelled show ?thesis by simp
qed

end
